theory Spec2Isabelle
  imports Complex_Main
begin

section \<open>The loyalty ledger of \<^verbatim>\<open>app.py\<close>\<close>

text \<open>
  \<^verbatim>\<open>app.py\<close> keeps three SQLite tables (\<^verbatim>\<open>Customers\<close>, \<^verbatim>\<open>PointsLedger\<close>, \<^verbatim>\<open>Rewards\<close>) and
  reaches them through a handful of helper functions, each of which opens a connection,
  runs one or two SQL statements and closes the connection again. The helpers are called
  from four Streamlit pages.

  The embedding is by explicit state passing. The database is a record of three row
  lists; every helper takes the database as its last argument and gives it back beside
  its Python result, so a helper that only runs \<^verbatim>\<open>SELECT\<close> gives back the database it was
  given and one that runs \<^verbatim>\<open>INSERT\<close> or \<^verbatim>\<open>UPDATE\<close> gives back the new one.

  What lies outside the source file is taken as follows.
  \<^item> The table schema is not part of the source. Rows carry the columns the statements
    name. The \<^verbatim>\<open>INSERT\<close> of \<^verbatim>\<open>add_points_transaction\<close> names no \<^verbatim>\<open>timestamp\<close>, so the
    store fills it in; the text it fills in is a parameter of the model.
  \<^item> \<^verbatim>\<open>datetime.now().year\<close> is a parameter as well (\<open>current_year\<close>).
  \<^item> Timestamps are text and SQL compares them as text, byte by byte.
  \<^item> Python integers are unbounded and so is \<open>int\<close>; the 64-bit range of SQLite's
    \<^verbatim>\<open>INTEGER\<close> and failures of the store itself (a missing file, a locked database)
    are not modelled.
  \<^item> Python's \<^verbatim>\<open>/\<close> on two integers gives the double nearest to the quotient. The
    model computes the quotient itself, in \<open>real\<close>; lemma \<open>rounded_threshold_test\<close>
    below shows that the one test the program makes on that number comes out the same
    under any monotone rounding that leaves 500 as it is and takes 499.9 below 500.
\<close>

subsection \<open>Constants\<close>

definition POINTS_PER_DOLLAR :: int where
  "POINTS_PER_DOLLAR = 10"

definition GOLD_TIER_THRESHOLD :: int where
  "GOLD_TIER_THRESHOLD = 500"

subsection \<open>Rows and tables\<close>

record customer =
  customer_id :: int
  email :: string
  first_name :: string
  last_name :: string
  tier :: string

text \<open>The ledger's \<^verbatim>\<open>customer_id\<close> and \<^verbatim>\<open>note\<close> columns are the fields \<open>entry_customer_id\<close> and
  \<open>entry_note\<close>.\<close>

record ledger_entry =
  entry_customer_id :: int
  points_change :: int
  transaction_type :: string
  entry_note :: string
  timestamp :: string

record reward =
  reward_id :: int
  name :: string
  points_cost :: int

record database =
  Customers :: "customer list"
  PointsLedger :: "ledger_entry list"
  Rewards :: "reward list"

subsection \<open>What Python and SQL do behind the statements\<close>

text \<open>\<^verbatim>\<open>SUM\<close> over no rows is \<^verbatim>\<open>NULL\<close>, which Python sees as \<^verbatim>\<open>None\<close>.\<close>

definition sql_sum :: "int list \<Rightarrow> int option" where
  "sql_sum xs = (if xs = [] then None else Some (sum_list xs))"

text \<open>Comparison of two texts under SQLite's default collation: bytewise, a proper
  prefix sorting first.\<close>

fun text_le :: "string \<Rightarrow> string \<Rightarrow> bool" where
  "text_le [] t = True"
| "text_le (c # s) [] = False"
| "text_le (c # s) (d # t) =
     (if (of_char c :: nat) < of_char d then True
      else if (of_char c :: nat) = of_char d then text_le s t
      else False)"

text \<open>\<^verbatim>\<open>x BETWEEN a AND b\<close> is \<^verbatim>\<open>x >= a AND x <= b\<close>.\<close>

definition sql_between :: "string \<Rightarrow> string \<Rightarrow> string \<Rightarrow> bool" where
  "sql_between x a b = (text_le a x \<and> text_le x b)"

text \<open>What an f-string makes of an integer.\<close>

definition digit_char :: "nat \<Rightarrow> char" where
  "digit_char d =
     (if d = 0 then CHR ''0'' else if d = 1 then CHR ''1'' else if d = 2 then CHR ''2''
      else if d = 3 then CHR ''3'' else if d = 4 then CHR ''4'' else if d = 5 then CHR ''5''
      else if d = 6 then CHR ''6'' else if d = 7 then CHR ''7'' else if d = 8 then CHR ''8''
      else CHR ''9'')"

fun str_nat :: "nat \<Rightarrow> string" where
  "str_nat n =
     (if n < 10 then [digit_char n] else str_nat (n div 10) @ [digit_char (n mod 10)])"

declare str_nat.simps [simp del]

definition str_int :: "int \<Rightarrow> string" where
  "str_int i = (if i < 0 then CHR ''-'' # str_nat (nat (- i)) else str_nat (nat i))"

text \<open>Python's \<^verbatim>\<open>a / b\<close> on integers, as the exact quotient (\<^verbatim>\<open>b\<close> is the constant 10
  at the only call).\<close>

definition true_div :: "int \<Rightarrow> int \<Rightarrow> real" where
  "true_div a b = real_of_int a / real_of_int b"

text \<open>The exceptions the modelled code can raise, and their \<^verbatim>\<open>str\<close>.\<close>

datatype py_error = TypeError | KeyError string

fun str_error :: "py_error \<Rightarrow> string" where
  "str_error TypeError =
     CHR 0x27 # ''NoneType'' @ CHR 0x27 # '' object is not subscriptable''"
| "str_error (KeyError k) = CHR 0x27 # k @ [CHR 0x27]"

text \<open>The values a Python caller can be handed back.\<close>

datatype pyval = PyNone | PyBool bool | PyStr string | PyTuple "pyval list"

text \<open>The Streamlit calls that report an outcome. Layout and display calls (headers,
  \<^verbatim>\<open>st.write\<close>, \<^verbatim>\<open>st.metric\<close>, \<^verbatim>\<open>st.balloons\<close>, tables) are left out. An exception that no
  handler catches ends the script run and is shown by Streamlit: \<open>Uncaught\<close>.\<close>

datatype ui = Success string | Error string | Warning string | Uncaught py_error

subsection \<open>Database helper functions\<close>

definition get_customer_by_email :: "string \<Rightarrow> database \<Rightarrow> customer option \<times> database" where
  "get_customer_by_email e db = (find (\<lambda>c. email c = e) (Customers db), db)"

definition get_customer_point_balance :: "int \<Rightarrow> database \<Rightarrow> int \<times> database" where
  "get_customer_point_balance cid db =
     (let result = sql_sum (map points_change
                     (filter (\<lambda>r. entry_customer_id r = cid) (PointsLedger db)))
      in (case result of Some v \<Rightarrow> v | None \<Rightarrow> 0, db))"

text \<open>\<^verbatim>\<open>ORDER BY points_cost ASC\<close>; rows of equal cost are kept in table order here (SQL
  leaves their order open).\<close>

definition get_available_rewards :: "database \<Rightarrow> reward list \<times> database" where
  "get_available_rewards db = (sort_key points_cost (Rewards db), db)"

text \<open>The first argument is the timestamp the store assigns to the new row.\<close>

definition add_points_transaction ::
  "string \<Rightarrow> int \<Rightarrow> int \<Rightarrow> string \<Rightarrow> string \<Rightarrow> database \<Rightarrow> database" where
  "add_points_transaction now cid points ttype nt db =
     db\<lparr>PointsLedger := PointsLedger db @
          [\<lparr>entry_customer_id = cid, points_change = points, transaction_type = ttype,
            entry_note = nt, timestamp = now\<rparr>]\<rparr>"

definition start_of_year :: "nat \<Rightarrow> string" where
  "start_of_year current_year = str_nat current_year @ ''-01-01 00:00:00''"

definition end_of_year :: "nat \<Rightarrow> string" where
  "end_of_year current_year = str_nat current_year @ ''-12-31 23:59:59''"

text \<open>The \<^verbatim>\<open>WHERE\<close> clause of the yearly query.\<close>

definition earned_this_year :: "nat \<Rightarrow> int \<Rightarrow> ledger_entry \<Rightarrow> bool" where
  "earned_this_year current_year cid r =
     (entry_customer_id r = cid \<and> transaction_type r = ''earn'' \<and>
      sql_between (timestamp r) (start_of_year current_year) (end_of_year current_year))"

definition get_customer_spending_this_year :: "nat \<Rightarrow> int \<Rightarrow> database \<Rightarrow> real \<times> database" where
  "get_customer_spending_this_year current_year cid db =
     (let result = sql_sum (map points_change
                     (filter (earned_this_year current_year cid) (PointsLedger db)));
          points_earned_this_year = (case result of Some v \<Rightarrow> v | None \<Rightarrow> 0);
          spending_this_year = true_div points_earned_this_year POINTS_PER_DOLLAR
      in (spending_this_year, db))"

text \<open>Line 99 of the source, \<^verbatim>\<open>"Gold" if spending >= GOLD_TIER_THRESHOLD else "Standard"\<close>.\<close>

definition new_tier_for :: "real \<Rightarrow> string" where
  "new_tier_for spending =
     (if spending \<ge> real_of_int GOLD_TIER_THRESHOLD then ''Gold'' else ''Standard'')"

text \<open>\<^verbatim>\<open>SELECT tier FROM Customers WHERE customer_id = ?\<close> with \<^verbatim>\<open>fetchone\<close>: the tier of
  the first row of that id, \<^verbatim>\<open>None\<close> when there is no such row.\<close>

definition select_tier :: "int \<Rightarrow> database \<Rightarrow> string option" where
  "select_tier cid db = map_option tier (find (\<lambda>c. customer_id c = cid) (Customers db))"

text \<open>\<^verbatim>\<open>UPDATE Customers SET tier = ? WHERE customer_id = ?\<close>.\<close>

definition set_tier :: "string \<Rightarrow> int \<Rightarrow> database \<Rightarrow> database" where
  "set_tier t cid db =
     db\<lparr>Customers := map (\<lambda>c. if customer_id c = cid then c\<lparr>tier := t\<rparr> else c) (Customers db)\<rparr>"

text \<open>\<^verbatim>\<open>update_customer_tier\<close> has no \<^verbatim>\<open>return\<close>: the caller gets \<^verbatim>\<open>None\<close>. Subscripting the
  \<^verbatim>\<open>None\<close> that \<^verbatim>\<open>fetchone\<close> gives for an unknown customer raises \<^verbatim>\<open>TypeError\<close>, before
  anything is written.\<close>

definition update_customer_tier ::
  "nat \<Rightarrow> int \<Rightarrow> database \<Rightarrow> py_error + (pyval \<times> ui list \<times> database)" where
  "update_customer_tier current_year cid db =
     (let (spending, db1) = get_customer_spending_this_year current_year cid db;
          new_tier = new_tier_for spending
      in case select_tier cid db1 of
           None \<Rightarrow> Inl TypeError
         | Some current_tier \<Rightarrow>
             if new_tier \<noteq> current_tier
             then Inr (PyNone,
                       [Success (''Customer tier updated to '' @ new_tier @ ''!'')],
                       set_tier new_tier cid db1)
             else Inr (PyNone, [], db1))"

subsection \<open>The pages\<close>

text \<open>
  Streamlit runs the script from its first line on every interaction, so a page is a
  function of what its widgets hold (the text inputs, the number input, the selected
  option, whether the button was the thing pressed) and of the database. Each page gives
  back the outcome messages it showed, in order, and the database it left.
\<close>

text \<open>\<^verbatim>\<open>int(x)\<close> on a float drops the fraction, towards zero. The amount comes from a
  number input and is a float; the product is taken exactly here.\<close>

definition py_int :: "real \<Rightarrow> int" where
  "py_int x = (if x \<ge> 0 then \<lfloor>x\<rfloor> else \<lceil>x\<rceil>)"

definition add_points_page ::
  "string \<Rightarrow> nat \<Rightarrow> string \<Rightarrow> real \<Rightarrow> string \<Rightarrow> bool \<Rightarrow> database \<Rightarrow> ui list \<times> database" where
  "add_points_page now current_year customer_email purchase_amount order_id clicked db =
     (if \<not> clicked then ([], db)
      else if customer_email = [] \<or> purchase_amount = 0 \<or> order_id = []
      then ([Warning ''Please fill in all fields.''], db)
      else
        (let (found, db1) = get_customer_by_email customer_email db
         in case found of
              None \<Rightarrow> ([Error ''Customer email not found.''], db1)
            | Some customer \<Rightarrow>
                (let points_to_add = py_int (purchase_amount * real_of_int POINTS_PER_DOLLAR);
                     transaction_note = ''Order #'' @ order_id;
                     db2 = add_points_transaction now (customer_id customer) points_to_add
                             ''earn'' transaction_note db1;
                     added = Success (''Successfully added '' @ str_int points_to_add @
                               '' points for customer '' @ customer_email @
                               '' (Order: '' @ order_id @ '').'')
                 in case update_customer_tier current_year (customer_id customer) db2 of
                      Inl e \<Rightarrow> ([added, Error (''Failed to add points: '' @ str_error e)], db2)
                    | Inr (r, shown, db3) \<Rightarrow> (added # shown, db3))))"

text \<open>The label of a reward in the select box, and \<^verbatim>\<open>s.split(sep)[0]\<close>: what stands
  before the first \<^verbatim>\<open>sep\<close> in \<^verbatim>\<open>s\<close>, all of \<^verbatim>\<open>s\<close> when there is none.\<close>

definition reward_label :: "reward \<Rightarrow> string" where
  "reward_label r = name r @ '' ('' @ str_int (points_cost r) @ '' Points)''"

fun split_head :: "string \<Rightarrow> string \<Rightarrow> string" where
  "split_head sep [] = []"
| "split_head sep (c # s) =
     (if take (length sep) (c # s) = sep then [] else c # split_head sep s)"

text \<open>The dict \<^verbatim>\<open>reward_options\<close>: the comprehension keeps, for a label that occurs
  twice, the id of the later reward. The select box offers the dict's keys, so the lookup
  finds its key; the model keeps the \<^verbatim>\<open>KeyError\<close> of any other text.\<close>

definition reward_options :: "reward list \<Rightarrow> string \<Rightarrow> int option" where
  "reward_options rewards = map_of (rev (map (\<lambda>r. (reward_label r, reward_id r)) rewards))"

text \<open>\<^verbatim>\<open>next((r['points_cost'] for r in rewards if r['reward_id'] == selected_reward_id), None)\<close>.\<close>

definition selected_reward_cost :: "reward list \<Rightarrow> int \<Rightarrow> int option" where
  "selected_reward_cost rewards selected_reward_id =
     map_option points_cost (find (\<lambda>r. reward_id r = selected_reward_id) rewards)"

definition redeem_reward_page ::
  "string \<Rightarrow> string \<Rightarrow> string \<Rightarrow> bool \<Rightarrow> database \<Rightarrow> ui list \<times> database" where
  "redeem_reward_page now customer_email selected_reward_display clicked db =
     (if customer_email = [] then ([], db)
      else
        (let (found, db1) = get_customer_by_email customer_email db
         in case found of
              None \<Rightarrow> ([Error ''Customer email not found.''], db1)
            | Some customer \<Rightarrow>
                (let (current_balance, db2) =
                       get_customer_point_balance (customer_id customer) db1;
                     (rewards, db3) = get_available_rewards db2
                 in if rewards = [] then ([Warning ''No rewards currently available.''], db3)
                    else
                      if \<not> clicked then ([], db3)
                      else
                        (case reward_options rewards selected_reward_display of
                           None \<Rightarrow> ([Uncaught (KeyError selected_reward_display)], db3)
                         | Some selected_reward_id \<Rightarrow>
                             (case selected_reward_cost rewards selected_reward_id of
                                None \<Rightarrow> ([Error ''Selected reward not found.''], db3)
                              | Some cost \<Rightarrow>
                                  if current_balance \<ge> cost
                                  then ([Success (''Successfully redeemed '' @
                                           selected_reward_display @ ''! '' @
                                           str_int cost @ '' points deducted.'')],
                                        add_points_transaction now (customer_id customer)
                                          (- cost) ''redeem''
                                          (''Redeemed: '' @
                                             split_head '' ('' selected_reward_display)
                                          db3)
                                  else ([Error ''Insufficient points to redeem this reward.''],
                                        db3))))))"

definition customer_service_page ::
  "string \<Rightarrow> nat \<Rightarrow> string \<Rightarrow> int \<Rightarrow> string \<Rightarrow> bool \<Rightarrow> database \<Rightarrow> ui list \<times> database" where
  "customer_service_page now current_year customer_email points_to_adjust reason clicked db =
     (if \<not> clicked then ([], db)
      else if customer_email = [] \<or> points_to_adjust = 0 \<or> reason = []
      then ([Warning ''Please fill in all fields (Points cannot be zero).''], db)
      else
        (let (found, db1) = get_customer_by_email customer_email db
         in case found of
              None \<Rightarrow> ([Error ''Customer email not found.''], db1)
            | Some customer \<Rightarrow>
                (let db2 = add_points_transaction now (customer_id customer) points_to_adjust
                             ''manual_adjust'' reason db1;
                     adjusted = Success (''Successfully adjusted points by '' @
                                  str_int points_to_adjust @ '' for '' @ customer_email @
                                  ''. Reason: '' @ reason)
                 in case update_customer_tier current_year (customer_id customer) db2 of
                      Inl e \<Rightarrow>
                        ([adjusted, Error (''Failed to adjust points: '' @ str_error e)], db2)
                    | Inr (r, shown, db3) \<Rightarrow> (adjusted # shown, db3))))"

subsection \<open>Timestamps as the store writes them\<close>

text \<open>The text of a date and time in the form \<^verbatim>\<open>%Y-%m-%d %H:%M:%S\<close>: the form of the two
  bounds of the yearly query and of the \<^verbatim>\<open>strftime\<close> of the history table.\<close>

definition two_digits :: "nat \<Rightarrow> string" where
  "two_digits n = [digit_char (n div 10), digit_char (n mod 10)]"

definition render_timestamp :: "nat \<Rightarrow> nat \<Rightarrow> nat \<Rightarrow> nat \<Rightarrow> nat \<Rightarrow> nat \<Rightarrow> string" where
  "render_timestamp y mo d h mi s =
     str_nat y @ ''-'' @ two_digits mo @ ''-'' @ two_digits d @ '' '' @
     two_digits h @ '':'' @ two_digits mi @ '':'' @ two_digits s"

subsection \<open>Sequences of recorder calls\<close>

text \<open>A run of calls to \<^verbatim>\<open>add_points_transaction\<close>, each with the timestamp the store gave
  it and the four arguments of the call, applied to the database in order.\<close>

fun record_all ::
  "(string \<times> int \<times> int \<times> string \<times> string) list \<Rightarrow> database \<Rightarrow> database" where
  "record_all [] db = db"
| "record_all ((now, cid, points, ttype, nt) # calls) db =
     record_all calls (add_points_transaction now cid points ttype nt db)"

subsection \<open>A small shop\<close>

definition alice :: customer where
  "alice = \<lparr>customer_id = 1, email = ''alice@example.com'', first_name = ''Alice'',
            last_name = ''Ng'', tier = ''Standard''\<rparr>"

definition tee :: reward where
  "tee = \<lparr>reward_id = 7, name = ''Tee'', points_cost = 800\<rparr>"

definition new_shop :: database where
  "new_shop = \<lparr>Customers = [alice], PointsLedger = [], Rewards = [tee]\<rparr>"

definition purchases :: "(string \<times> int \<times> int \<times> string \<times> string) list" where
  "purchases = [(''2024-03-01 10:00:00'', 1, 1000, ''earn'', ''Order #A1''),
                (''2024-12-31 23:59:59'', 1, 4500, ''earn'', ''Order #A2''),
                (''2024-06-01 09:30:00'', 2, 70, ''earn'', ''Order #B1'')]"

text \<open>The shop after the three purchases: customer 1 has earned 5500 points in 2024.\<close>

definition gold_year :: database where
  "gold_year = record_all purchases new_shop"

text \<open>A customer who reached Gold on a purchase of 2023 and has bought nothing since.\<close>

definition last_year_gold :: database where
  "last_year_gold =
     \<lparr>Customers = [alice\<lparr>tier := ''Gold''\<rparr>],
      PointsLedger = [\<lparr>entry_customer_id = 1, points_change = 6000, transaction_type = ''earn'',
                       entry_note = ''Order #Z9'', timestamp = ''2023-11-20 16:45:00''\<rparr>],
      Rewards = [tee]\<rparr>"

section \<open>Properties\<close>

subsection \<open>Values of the two aggregate queries\<close>

lemma sql_sum_value: "(case sql_sum xs of Some v \<Rightarrow> v | None \<Rightarrow> 0) = sum_list xs"
  by (simp add: sql_sum_def)

lemma balance_value:
  "fst (get_customer_point_balance cid db) =
     sum_list (map points_change (filter (\<lambda>r. entry_customer_id r = cid) (PointsLedger db)))"
  by (simp add: get_customer_point_balance_def sql_sum_value)

lemma spending_value:
  "fst (get_customer_spending_this_year y cid db) =
     real_of_int (sum_list (map points_change
        (filter (earned_this_year y cid) (PointsLedger db)))) / 10"
  by (simp add: get_customer_spending_this_year_def sql_sum_value true_div_def
      POINTS_PER_DOLLAR_def)

text \<open>The double that Python computes for the quotient is compared with 500 in
  \<^verbatim>\<open>update_customer_tier\<close> and used nowhere else. Rounding to the nearest double is
  monotone, leaves 500 as it is, and takes 499.9 to a double below 500; under any such
  rounding the comparison has the outcome it has on the exact quotient.\<close>

lemma rounded_threshold_test:
  fixes rnd :: "real \<Rightarrow> real"
  assumes "mono rnd" and "rnd 500 = 500" and "rnd (4999 / 10) < 500"
  shows "(rnd (true_div p POINTS_PER_DOLLAR) \<ge> real_of_int GOLD_TIER_THRESHOLD)
       = (true_div p POINTS_PER_DOLLAR \<ge> real_of_int GOLD_TIER_THRESHOLD)"
proof (cases "p \<ge> 5000")
  case True
  then have q: "true_div p POINTS_PER_DOLLAR \<ge> 500"
    by (simp add: true_div_def POINTS_PER_DOLLAR_def)
  with assms(1) have "rnd 500 \<le> rnd (true_div p POINTS_PER_DOLLAR)"
    by (rule monoD)
  with q assms(2) show ?thesis
    by (simp add: GOLD_TIER_THRESHOLD_def)
next
  case False
  then have "p \<le> 4999" by simp
  then have "real_of_int p \<le> 4999" by linarith
  then have q: "true_div p POINTS_PER_DOLLAR \<le> 4999 / 10"
    by (simp add: true_div_def POINTS_PER_DOLLAR_def)
  with assms(1) have "rnd (true_div p POINTS_PER_DOLLAR) \<le> rnd (4999 / 10)"
    by (rule monoD)
  with q assms(3) show ?thesis
    by (simp add: GOLD_TIER_THRESHOLD_def)
qed

subsection \<open>The balance\<close>

lemma ledger_record_all:
  "PointsLedger (record_all calls db) =
     PointsLedger db @
     map (\<lambda>(now, cid, points, ttype, nt).
            \<lparr>entry_customer_id = cid, points_change = points, transaction_type = ttype,
             entry_note = nt, timestamp = now\<rparr>) calls"
  by (induction calls db rule: record_all.induct) (simp_all add: add_points_transaction_def)

lemma sum_recorded:
  "sum_list (map points_change (filter (\<lambda>r. entry_customer_id r = cid)
     (map (\<lambda>(now, c, points, ttype, nt).
            \<lparr>entry_customer_id = c, points_change = points, transaction_type = ttype,
             entry_note = nt, timestamp = now\<rparr>) calls)))
   = sum_list (map (\<lambda>(now, c, points, ttype, nt). points)
       (filter (\<lambda>(now, c, points, ttype, nt). c = cid) calls))"
  by (induction calls) auto

text \<open>
  Claim C1. For every customer, \<^verbatim>\<open>get_customer_point_balance\<close> returns the sum of
  \<open>points_change\<close> over the ledger rows of that customer, and 0 when the customer has no
  row. The equality holds in the database reached by any run of recorder calls, where
  the balance is the balance before the run plus the points the run recorded for the
  customer.
\<close>

theorem balance_is_ledger_sum:
  "fst (get_customer_point_balance cid db) =
     (\<Sum>r\<leftarrow>filter (\<lambda>r. entry_customer_id r = cid) (PointsLedger db). points_change r)
   \<and> (filter (\<lambda>r. entry_customer_id r = cid) (PointsLedger db) = [] \<longrightarrow>
        fst (get_customer_point_balance cid db) = 0)
   \<and> fst (get_customer_point_balance cid (record_all calls db)) =
       (\<Sum>r\<leftarrow>filter (\<lambda>r. entry_customer_id r = cid) (PointsLedger (record_all calls db)).
          points_change r)
   \<and> fst (get_customer_point_balance cid (record_all calls db)) =
       fst (get_customer_point_balance cid db) +
       (\<Sum>(now, c, points, ttype, nt)\<leftarrow>filter (\<lambda>(now, c, points, ttype, nt). c = cid) calls.
          points)"
proof -
  have "fst (get_customer_point_balance cid (record_all calls db)) =
       fst (get_customer_point_balance cid db) +
       (\<Sum>(now, c, points, ttype, nt)\<leftarrow>filter (\<lambda>(now, c, points, ttype, nt). c = cid) calls.
          points)"
    by (simp add: balance_value ledger_record_all sum_recorded)
  then show ?thesis
    by (simp add: balance_value)
qed

theorem balance_is_ledger_sum_witness:
  "filter (\<lambda>r. entry_customer_id r = 1) (PointsLedger new_shop) = []
   \<and> fst (get_customer_point_balance 1 new_shop) = 0
   \<and> fst (get_customer_point_balance 1 (record_all purchases new_shop)) = 5500"
  using balance_is_ledger_sum [of 1 new_shop purchases]
  by (simp add: new_shop_def purchases_def)

subsection \<open>Spend of the year and tier\<close>

lemmas ev = str_nat.simps digit_char_def start_of_year_def end_of_year_def sql_between_def
  earned_this_year_def

lemma select_tier_set_tier:
  assumes "select_tier cid db = Some t0"
  shows "select_tier cid (set_tier t cid db) = Some t"
proof -
  have "map_option tier (find (\<lambda>c. customer_id c = cid) cs) = Some t0 \<Longrightarrow>
        map_option tier (find (\<lambda>c. customer_id c = cid)
          (map (\<lambda>c. if customer_id c = cid then c\<lparr>tier := t\<rparr> else c) cs)) = Some t"
    for cs
    by (induction cs) (auto split: if_splits)
  with assms show ?thesis
    by (simp add: select_tier_def set_tier_def)
qed

lemma update_customer_tier_found:
  assumes "select_tier cid db = Some current_tier"
  shows "update_customer_tier y cid db =
     (let new_tier = new_tier_for (fst (get_customer_spending_this_year y cid db))
      in if new_tier \<noteq> current_tier
         then Inr (PyNone, [Success (''Customer tier updated to '' @ new_tier @ ''!'')],
                   set_tier new_tier cid db)
         else Inr (PyNone, [], db))"
  using assms
  by (simp add: update_customer_tier_def get_customer_spending_this_year_def Let_def)

lemma update_customer_tier_missing:
  "select_tier cid db = None \<Longrightarrow> update_customer_tier y cid db = Inl TypeError"
  by (simp add: update_customer_tier_def get_customer_spending_this_year_def Let_def)

lemma stored_tier_after_update:
  assumes "update_customer_tier y cid db = Inr (v, shown, db')"
  shows "select_tier cid db' =
         Some (new_tier_for (fst (get_customer_spending_this_year y cid db)))"
proof (cases "select_tier cid db")
  case None
  with assms show ?thesis by (simp add: update_customer_tier_missing)
next
  case (Some current_tier)
  with assms show ?thesis
    by (auto simp: update_customer_tier_found Let_def select_tier_set_tier split: if_splits)
qed

text \<open>
  Claim C3. The tier that \<^verbatim>\<open>update_customer_tier\<close> leaves stored for the customer is Gold
  when the estimated yearly spend is at least 500 and Standard otherwise; the
  classification of line 99 is Gold exactly from 500 on, so a spend of 500.00 gives Gold
  and a spend of 499.99 gives Standard.
\<close>

theorem tier_threshold:
  "(update_customer_tier y cid db = Inr (v, shown, db') \<longrightarrow>
      select_tier cid db' =
        Some (if fst (get_customer_spending_this_year y cid db) \<ge> 500
              then ''Gold'' else ''Standard''))
   \<and> (new_tier_for spending = ''Gold'') = (spending \<ge> 500)
   \<and> (new_tier_for spending = ''Standard'') = (spending < 500)
   \<and> new_tier_for 500.00 = ''Gold''
   \<and> new_tier_for 499.99 = ''Standard''"
proof -
  have "update_customer_tier y cid db = Inr (v, shown, db') \<longrightarrow>
      select_tier cid db' =
        Some (if fst (get_customer_spending_this_year y cid db) \<ge> 500
              then ''Gold'' else ''Standard'')"
    using stored_tier_after_update [of y cid db v shown db']
    by (simp add: new_tier_for_def GOLD_TIER_THRESHOLD_def)
  moreover have "(new_tier_for spending = ''Gold'') = (spending \<ge> 500)"
    by (simp add: new_tier_for_def GOLD_TIER_THRESHOLD_def)
  moreover have "(new_tier_for spending = ''Standard'') = (spending < 500)"
    by (simp add: new_tier_for_def GOLD_TIER_THRESHOLD_def not_le)
  moreover have "new_tier_for 500.00 = ''Gold''" "new_tier_for 499.99 = ''Standard''"
    by (simp_all add: new_tier_for_def GOLD_TIER_THRESHOLD_def)
  ultimately show ?thesis by blast
qed

lemma gold_year_spending: "fst (get_customer_spending_this_year 2024 1 gold_year) = 550"
  by (simp add: spending_value gold_year_def purchases_def new_shop_def
      add_points_transaction_def ev)

lemma gold_year_stored: "select_tier 1 gold_year = Some ''Standard''"
  by (simp add: select_tier_def gold_year_def purchases_def new_shop_def
      add_points_transaction_def alice_def)

lemma gold_year_update:
  "update_customer_tier 2024 1 gold_year =
     Inr (PyNone, [Success ''Customer tier updated to Gold!''], set_tier ''Gold'' 1 gold_year)"
proof -
  show ?thesis
    by (simp add: update_customer_tier_found [OF gold_year_stored] gold_year_spending
        new_tier_for_def GOLD_TIER_THRESHOLD_def)
qed

theorem tier_threshold_witness:
  "update_customer_tier 2024 1 gold_year =
     Inr (PyNone, [Success ''Customer tier updated to Gold!''], set_tier ''Gold'' 1 gold_year)
   \<and> fst (get_customer_spending_this_year 2024 1 gold_year) = 550
   \<and> select_tier 1 (set_tier ''Gold'' 1 gold_year) = Some ''Gold''"
  using tier_threshold [of 2024 1 gold_year PyNone "[Success ''Customer tier updated to Gold!'']"
      "set_tier ''Gold'' 1 gold_year" 0]
  by (simp add: gold_year_update gold_year_spending)

lemma lex_pair:
  fixes q r q' r' k :: nat
  assumes "r < k" and "r' < k"
  shows "(q < q' \<or> (q = q' \<and> r < r')) = (k * q + r < k * q' + r')"
proof (cases "q < q'")
  case True
  then have "Suc q \<le> q'" by simp
  then have "k * Suc q \<le> k * q'" by (rule mult_le_mono2)
  with assms True show ?thesis by simp
next
  case False
  show ?thesis
  proof (cases "q = q'")
    case True
    then show ?thesis by simp
  next
    case neq: False
    with False have "Suc q' \<le> q" by simp
    then have "k * Suc q' \<le> k * q" by (rule mult_le_mono2)
    with assms False neq show ?thesis by simp
  qed
qed

lemma lex_div_mod:
  fixes m n k :: nat
  assumes "0 < k"
  shows "(m div k < n div k \<or> (m div k = n div k \<and> m mod k < n mod k)) = (m < n)"
  using lex_pair [of "m mod k" k "n mod k" "m div k" "n div k"] assms by simp

lemma eq_div_mod:
  fixes m n k :: nat
  shows "(m div k = n div k \<and> m mod k = n mod k) = (m = n)"
  by (metis div_mult_mod_eq)

lemma of_char_digit: "d < 10 \<Longrightarrow> (of_char (digit_char d) :: nat) = 48 + d"
proof -
  assume "d < 10"
  then consider "d = 0" | "d = 1" | "d = 2" | "d = 3" | "d = 4" | "d = 5" | "d = 6"
    | "d = 7" | "d = 8" | "d = 9"
    by atomize_elim presburger
  then show ?thesis
    by cases (simp_all add: digit_char_def)
qed

lemma digit_le:
  assumes "m < 10" and "n < 10"
  shows "text_le (digit_char m # s) (digit_char n # t) = (m < n \<or> (m = n \<and> text_le s t))"
  using assms by (auto simp: of_char_digit)

lemma two_digits_le:
  assumes "m < 100" and "n < 100"
  shows "text_le (two_digits m @ s) (two_digits n @ t) = (m < n \<or> (m = n \<and> text_le s t))"
proof -
  have a: "m div 10 < 10" "m mod 10 < 10" "n div 10 < 10" "n mod 10 < 10"
    using assms by simp_all
  have "text_le (two_digits m @ s) (two_digits n @ t) =
        (m div 10 < n div 10 \<or> (m div 10 = n div 10 \<and>
           (m mod 10 < n mod 10 \<or> (m mod 10 = n mod 10 \<and> text_le s t))))"
    by (simp only: two_digits_def append.simps digit_le [OF a(1) a(3)]
        digit_le [OF a(2) a(4)])
  also have "\<dots> = ((m div 10 < n div 10 \<or> (m div 10 = n div 10 \<and> m mod 10 < n mod 10)) \<or>
                 ((m div 10 = n div 10 \<and> m mod 10 = n mod 10) \<and> text_le s t))"
    by blast
  also have "\<dots> = (m < n \<or> (m = n \<and> text_le s t))"
    by (simp only: lex_div_mod [of 10] eq_div_mod zero_less_numeral)
  finally show ?thesis .
qed

lemma str_nat_four:
  assumes "1000 \<le> y" and "y \<le> 9999"
  shows "str_nat y = two_digits (y div 100) @ two_digits (y mod 100)"
proof -
  have a: "\<not> y < 10" "\<not> y div 10 < 10" "\<not> y div 100 < 10" "y div 1000 < 10"
    using assms by simp_all
  have b: "y div 10 div 10 = y div 100" "y div 100 div 10 = y div 1000"
    by (simp_all add: div_mult2_eq [symmetric])
  have c: "y mod 100 div 10 = y div 10 mod 10"
    using mod_mult2_eq [of y 10 10] by simp
  have d: "y mod 100 mod 10 = y mod 10"
    by (simp add: mod_mod_cancel)
  have "str_nat y = str_nat (y div 10) @ [digit_char (y mod 10)]"
    using a(1) by (subst str_nat.simps) simp
  also have "str_nat (y div 10) = str_nat (y div 100) @ [digit_char (y div 10 mod 10)]"
    using a(2) by (subst str_nat.simps) (simp add: b)
  also have "str_nat (y div 100) = str_nat (y div 1000) @ [digit_char (y div 100 mod 10)]"
    using a(3) by (subst str_nat.simps) (simp add: b)
  also have "str_nat (y div 1000) = [digit_char (y div 1000)]"
    using a(4) by (subst str_nat.simps) simp
  finally show ?thesis
    by (simp add: two_digits_def b c d)
qed

lemma year_le:
  assumes "1000 \<le> a" "a \<le> 9999" "1000 \<le> b" "b \<le> 9999"
  shows "text_le (str_nat a @ s) (str_nat b @ t) = (a < b \<or> (a = b \<and> text_le s t))"
proof -
  have c: "a div 100 < 100" "a mod 100 < 100" "b div 100 < 100" "b mod 100 < 100"
    using assms by simp_all
  have "text_le (str_nat a @ s) (str_nat b @ t) =
        (a div 100 < b div 100 \<or> (a div 100 = b div 100 \<and>
           (a mod 100 < b mod 100 \<or> (a mod 100 = b mod 100 \<and> text_le s t))))"
    by (simp only: str_nat_four [OF assms(1,2)] str_nat_four [OF assms(3,4)] append_assoc
        two_digits_le [OF c(1) c(3)] two_digits_le [OF c(2) c(4)])
  also have "\<dots> = ((a div 100 < b div 100 \<or> (a div 100 = b div 100 \<and> a mod 100 < b mod 100)) \<or>
                 ((a div 100 = b div 100 \<and> a mod 100 = b mod 100) \<and> text_le s t))"
    by blast
  also have "\<dots> = (a < b \<or> (a = b \<and> text_le s t))"
    by (simp only: lex_div_mod [of 100] eq_div_mod zero_less_numeral)
  finally show ?thesis .
qed

lemma bounds_rendered:
  "start_of_year cy = render_timestamp cy 1 1 0 0 0"
  "end_of_year cy = render_timestamp cy 12 31 23 59 59"
  by (simp_all add: start_of_year_def end_of_year_def render_timestamp_def two_digits_def
      digit_char_def)

lemma sep_le: "text_le (c # s) (c # t) = text_le s t"
  by simp

lemma rendered_le:
  assumes "1000 \<le> y" "y \<le> 9999" "1000 \<le> y'" "y' \<le> 9999"
    and "mo < 100" "d < 100" "h < 100" "mi < 100" "s < 100"
    and "mo' < 100" "d' < 100" "h' < 100" "mi' < 100" "s' < 100"
  shows "text_le (render_timestamp y mo d h mi s) (render_timestamp y' mo' d' h' mi' s') =
     (y < y' \<or> (y = y' \<and> (mo < mo' \<or> (mo = mo' \<and> (d < d' \<or> (d = d' \<and>
        (h < h' \<or> (h = h' \<and> (mi < mi' \<or> (mi = mi' \<and> s \<le> s'))))))))))"
proof -
  have l: "text_le (two_digits s) (two_digits s') = (s \<le> s')"
    using two_digits_le [OF assms(9) assms(14), of "[]" "[]"] by auto
  show ?thesis
    by (simp only: render_timestamp_def year_le [OF assms(1-4)] append.simps sep_le
        two_digits_le [OF assms(5) assms(10)] two_digits_le [OF assms(6) assms(11)]
        two_digits_le [OF assms(7) assms(12)] two_digits_le [OF assms(8) assms(13)] l)
qed

lemma stamp_in_year:
  assumes "1000 \<le> y" "y \<le> 9999" "1000 \<le> cy" "cy \<le> 9999"
    and "1 \<le> mo" "mo \<le> 12" "1 \<le> d" "d \<le> 31" "h \<le> 23" "mi \<le> 59" "s \<le> 59"
  shows "sql_between (render_timestamp y mo d h mi s) (start_of_year cy) (end_of_year cy) =
         (y = cy)"
proof -
  have "text_le (render_timestamp cy 1 1 0 0 0) (render_timestamp y mo d h mi s) =
        (cy < y \<or> cy = y)"
    using assms by (subst rendered_le) auto
  moreover have "text_le (render_timestamp y mo d h mi s) (render_timestamp cy 12 31 23 59 59) =
        (y < cy \<or> y = cy)"
    using assms by (subst rendered_le) auto
  ultimately show ?thesis
    by (auto simp: sql_between_def bounds_rendered)
qed

text \<open>
  Claim C4. For every customer and year, \<^verbatim>\<open>get_customer_spending_this_year\<close> is the sum of
  \<open>points_change\<close> over the customer's ledger rows of type \<^verbatim>\<open>earn\<close> whose timestamp lies
  between \<^verbatim>\<open>year-01-01 00:00:00\<close> and \<^verbatim>\<open>year-12-31 23:59:59\<close>, both bounds included,
  divided by 10 points per currency unit. The year is the one the clock gives. The test
  on the timestamp is a comparison of texts; for a four-digit year it holds of the text
  of a date and time exactly when that date and time is of the year.
\<close>

theorem yearly_spend_is_earn_sum:
  "fst (get_customer_spending_this_year y cid db) =
     real_of_int
       (\<Sum>r\<leftarrow>filter (\<lambda>r. entry_customer_id r = cid \<and> transaction_type r = ''earn'' \<and>
                      text_le (str_nat y @ ''-01-01 00:00:00'') (timestamp r) \<and>
                      text_le (timestamp r) (str_nat y @ ''-12-31 23:59:59''))
            (PointsLedger db). points_change r) / 10
   \<and> (1000 \<le> y \<and> y \<le> 9999 \<and> 1000 \<le> ry \<and> ry \<le> 9999 \<and> 1 \<le> mo \<and> mo \<le> 12 \<and>
        1 \<le> d \<and> d \<le> 31 \<and> h \<le> 23 \<and> mi \<le> 59 \<and> s \<le> 59 \<longrightarrow>
        (text_le (str_nat y @ ''-01-01 00:00:00'') (render_timestamp ry mo d h mi s) \<and>
         text_le (render_timestamp ry mo d h mi s) (str_nat y @ ''-12-31 23:59:59'')) =
        (ry = y))"
proof -
  have "earned_this_year y cid =
          (\<lambda>r. entry_customer_id r = cid \<and> transaction_type r = ''earn'' \<and>
                text_le (str_nat y @ ''-01-01 00:00:00'') (timestamp r) \<and>
                text_le (timestamp r) (str_nat y @ ''-12-31 23:59:59''))"
    by (rule ext)
       (simp add: earned_this_year_def sql_between_def start_of_year_def end_of_year_def)
  then have a: "fst (get_customer_spending_this_year y cid db) =
     real_of_int
       (\<Sum>r\<leftarrow>filter (\<lambda>r. entry_customer_id r = cid \<and> transaction_type r = ''earn'' \<and>
                      text_le (str_nat y @ ''-01-01 00:00:00'') (timestamp r) \<and>
                      text_le (timestamp r) (str_nat y @ ''-12-31 23:59:59''))
            (PointsLedger db). points_change r) / 10"
    by (simp add: spending_value)
  have b: "(text_le (str_nat y @ ''-01-01 00:00:00'') (render_timestamp ry mo d h mi s) \<and>
         text_le (render_timestamp ry mo d h mi s) (str_nat y @ ''-12-31 23:59:59'')) =
        (ry = y)"
    if "1000 \<le> ry" "ry \<le> 9999" "1000 \<le> y" "y \<le> 9999" "1 \<le> mo" "mo \<le> 12"
       "1 \<le> d" "d \<le> 31" "h \<le> 23" "mi \<le> 59" "s \<le> 59"
    using stamp_in_year [OF that]
    by (simp add: sql_between_def start_of_year_def end_of_year_def)
  from a b show ?thesis by blast
qed

theorem yearly_spend_is_earn_sum_witness:
  "render_timestamp 2024 12 31 23 59 59 = ''2024-12-31 23:59:59''
   \<and> text_le (str_nat 2024 @ ''-01-01 00:00:00'') ''2024-12-31 23:59:59''
   \<and> text_le ''2024-12-31 23:59:59'' (str_nat 2024 @ ''-12-31 23:59:59'')
   \<and> fst (get_customer_spending_this_year 2024 1 gold_year) = 550"
proof -
  have r: "render_timestamp 2024 12 31 23 59 59 = ''2024-12-31 23:59:59''"
    by (simp add: render_timestamp_def two_digits_def str_nat.simps digit_char_def)
  show ?thesis
    using yearly_spend_is_earn_sum [of 2024 1 gold_year 2024 12 31 23 59 59]
    by (simp add: r gold_year_spending)
qed

lemma spending_after_record:
  "fst (get_customer_spending_this_year y cid (add_points_transaction now c p t n db)) =
     fst (get_customer_spending_this_year y cid db) +
     (if earned_this_year y cid
           \<lparr>entry_customer_id = c, points_change = p, transaction_type = t,
            entry_note = n, timestamp = now\<rparr>
      then real_of_int p / 10 else 0)"
  by (simp add: spending_value add_points_transaction_def add_divide_distrib)

text \<open>
  Claim C7. An \<^verbatim>\<open>earn\<close> row stamped \<^verbatim>\<open>2024-12-31 23:59:59\<close> is counted in the spend of 2024:
  recording it raises that spend by its points over 10. One stamped
  \<^verbatim>\<open>2025-01-01 00:00:00\<close> is not counted: recording it leaves the spend of 2024 as it was.
\<close>

theorem year_end_boundary:
  "fst (get_customer_spending_this_year 2024 cid
          (add_points_transaction ''2024-12-31 23:59:59'' cid p ''earn'' n db)) =
     fst (get_customer_spending_this_year 2024 cid db) + real_of_int p / 10
   \<and> fst (get_customer_spending_this_year 2024 cid
          (add_points_transaction ''2025-01-01 00:00:00'' cid p ''earn'' n db)) =
     fst (get_customer_spending_this_year 2024 cid db)
   \<and> earned_this_year 2024 cid
        \<lparr>entry_customer_id = cid, points_change = p, transaction_type = ''earn'',
         entry_note = n, timestamp = ''2024-12-31 23:59:59''\<rparr>
   \<and> \<not> earned_this_year 2024 cid
        \<lparr>entry_customer_id = cid, points_change = p, transaction_type = ''earn'',
         entry_note = n, timestamp = ''2025-01-01 00:00:00''\<rparr>"
  by (simp add: spending_after_record ev)

text \<open>
  Claim C8. \<^verbatim>\<open>get_customer_point_balance\<close> and \<^verbatim>\<open>get_customer_spending_this_year\<close> give
  back the database they were given, and a second call of either, straight after a call
  of either, returns what a first call returns.
\<close>

theorem reads_are_pure:
  "snd (get_customer_point_balance cid db) = db
   \<and> snd (get_customer_spending_this_year y cid db) = db
   \<and> fst (get_customer_point_balance cid (snd (get_customer_point_balance cid db))) =
       fst (get_customer_point_balance cid db)
   \<and> fst (get_customer_spending_this_year y cid
            (snd (get_customer_spending_this_year y cid db))) =
       fst (get_customer_spending_this_year y cid db)
   \<and> fst (get_customer_point_balance cid (snd (get_customer_spending_this_year y cid' db))) =
       fst (get_customer_point_balance cid db)
   \<and> fst (get_customer_spending_this_year y cid (snd (get_customer_point_balance cid' db))) =
       fst (get_customer_spending_this_year y cid db)"
  by (simp add: get_customer_point_balance_def get_customer_spending_this_year_def Let_def)

text \<open>
  Claim C6 as stated fails. For a customer stored as Standard whose spend of the year is
  550, \<^verbatim>\<open>update_customer_tier\<close> stores Gold and shows the success message, and what it
  returns is \<^verbatim>\<open>None\<close>, not the triple \<^verbatim>\<open>("Standard", "Gold", True)\<close>.
\<close>

theorem tier_update_returns_none:
  "update_customer_tier 2024 1 gold_year =
     Inr (PyNone, [Success ''Customer tier updated to Gold!''], set_tier ''Gold'' 1 gold_year)
   \<and> select_tier 1 gold_year = Some ''Standard''
   \<and> update_customer_tier 2024 1 gold_year \<noteq>
     Inr (PyTuple [PyStr ''Standard'', PyStr ''Gold'', PyBool True],
          [Success ''Customer tier updated to Gold!''], set_tier ''Gold'' 1 gold_year)"
  by (simp add: gold_year_update gold_year_stored)

text \<open>
  Claim C6, amended. For a customer with a stored tier, \<^verbatim>\<open>update_customer_tier\<close> returns
  \<^verbatim>\<open>None\<close>. When the tier it classifies differs from the stored one it writes the new tier
  to the customer's rows and shows \<^verbatim>\<open>Customer tier updated to <tier>!\<close>; when the two are
  equal it writes nothing and shows nothing.
\<close>

theorem tier_update_effect:
  "select_tier cid db = Some current_tier \<Longrightarrow>
   update_customer_tier y cid db =
     (if new_tier_for (fst (get_customer_spending_this_year y cid db)) \<noteq> current_tier
      then Inr (PyNone,
                [Success (''Customer tier updated to '' @
                   new_tier_for (fst (get_customer_spending_this_year y cid db)) @ ''!'')],
                set_tier (new_tier_for (fst (get_customer_spending_this_year y cid db)))
                  cid db)
      else Inr (PyNone, [], db))"
  by (simp add: update_customer_tier_found Let_def)

theorem tier_update_effect_witness:
  "select_tier 1 gold_year = Some ''Standard''
   \<and> update_customer_tier 2024 1 gold_year =
       Inr (PyNone, [Success ''Customer tier updated to Gold!''],
            set_tier ''Gold'' 1 gold_year)
   \<and> update_customer_tier 2024 1 (set_tier ''Gold'' 1 gold_year) =
       Inr (PyNone, [], set_tier ''Gold'' 1 gold_year)"
proof -
  have b: "select_tier 1 (set_tier ''Gold'' 1 gold_year) = Some ''Gold''"
    using gold_year_stored by (rule select_tier_set_tier)
  have c: "fst (get_customer_spending_this_year 2024 1 (set_tier ''Gold'' 1 gold_year)) = 550"
    using gold_year_spending by (simp add: spending_value set_tier_def)
  show ?thesis
    using tier_update_effect [OF gold_year_stored, of 2024] tier_update_effect [OF b, of 2024]
    by (simp add: gold_year_stored c gold_year_spending new_tier_for_def
        GOLD_TIER_THRESHOLD_def)
qed

subsection \<open>The pages\<close>


lemma found_has_tier:
  assumes "fst (get_customer_by_email e db) = Some customer"
  shows "\<exists>t. select_tier (customer_id customer) db = Some t"
proof -
  from assms have "customer \<in> set (Customers db)"
    by (auto simp: get_customer_by_email_def find_Some_iff)
  then have "find (\<lambda>c. customer_id c = customer_id customer) (Customers db) \<noteq> None"
    by (auto simp: find_None_iff)
  then show ?thesis
    by (auto simp: select_tier_def)
qed

lemma select_tier_after_record:
  "select_tier cid (add_points_transaction now c p t n db) = select_tier cid db"
  by (simp add: select_tier_def add_points_transaction_def)

lemma set_tier_frame:
  "PointsLedger (set_tier t c db) = PointsLedger db" "Rewards (set_tier t c db) = Rewards db"
  by (simp_all add: set_tier_def)

lemma update_result_db:
  assumes "select_tier cid db = Some t0"
  shows "\<exists>shown db'. update_customer_tier y cid db = Inr (PyNone, shown, db')
           \<and> PointsLedger db' = PointsLedger db \<and> Rewards db' = Rewards db
           \<and> select_tier cid db' =
               Some (new_tier_for (fst (get_customer_spending_this_year y cid db)))"
  using assms
  by (auto simp: update_customer_tier_found Let_def select_tier_set_tier set_tier_frame)

lemma add_points_page_found:
  assumes "fst (get_customer_by_email e db) = Some customer"
    and "e \<noteq> []" and "amount \<noteq> 0" and "order_id \<noteq> []"
  shows "\<exists>shown db'.
     add_points_page now y e amount order_id True db = (shown, db')
     \<and> PointsLedger db' = PointsLedger db @
          [\<lparr>entry_customer_id = customer_id customer,
            points_change = py_int (amount * real_of_int POINTS_PER_DOLLAR),
            transaction_type = ''earn'', entry_note = ''Order #'' @ order_id,
            timestamp = now\<rparr>]
     \<and> Rewards db' = Rewards db
     \<and> select_tier (customer_id customer) db' =
          Some (new_tier_for (fst (get_customer_spending_this_year y (customer_id customer) db')))"
proof -
  let ?cid = "customer_id customer"
  let ?db2 = "add_points_transaction now ?cid (py_int (amount * real_of_int POINTS_PER_DOLLAR))
                 ''earn'' (''Order #'' @ order_id) db"
  from found_has_tier [OF assms(1)] obtain t0 where "select_tier ?cid db = Some t0" ..
  then have "select_tier ?cid ?db2 = Some t0"
    by (simp add: select_tier_after_record)
  from update_result_db [OF this, of y] obtain shown db' where
    u: "update_customer_tier y ?cid ?db2 = Inr (PyNone, shown, db')"
    and l: "PointsLedger db' = PointsLedger ?db2" and r: "Rewards db' = Rewards ?db2"
    and t: "select_tier ?cid db' = Some (new_tier_for (fst (get_customer_spending_this_year y ?cid ?db2)))"
    by blast
  have s: "fst (get_customer_spending_this_year y ?cid db') =
           fst (get_customer_spending_this_year y ?cid ?db2)"
    by (simp add: spending_value l)
  from assms have f: "find (\<lambda>c. email c = e) (Customers db) = Some customer"
    by (simp add: get_customer_by_email_def)
  have "add_points_page now y e amount order_id True db =
        (Success (''Successfully added '' @
           str_int (py_int (amount * real_of_int POINTS_PER_DOLLAR)) @
           '' points for customer '' @ e @ '' (Order: '' @ order_id @ '').'') # shown, db')"
    using assms(2-4) f u
    by (simp add: add_points_page_def get_customer_by_email_def Let_def)
  with l r t s show ?thesis
    by (simp add: add_points_transaction_def)
qed

lemma customer_service_page_found:
  assumes "fst (get_customer_by_email e db) = Some customer"
    and "e \<noteq> []" and "points \<noteq> 0" and "reason \<noteq> []"
  shows "\<exists>shown db'.
     customer_service_page now y e points reason True db = (shown, db')
     \<and> PointsLedger db' = PointsLedger db @
          [\<lparr>entry_customer_id = customer_id customer, points_change = points,
            transaction_type = ''manual_adjust'', entry_note = reason, timestamp = now\<rparr>]
     \<and> Rewards db' = Rewards db
     \<and> select_tier (customer_id customer) db' =
          Some (new_tier_for (fst (get_customer_spending_this_year y (customer_id customer) db')))"
proof -
  let ?cid = "customer_id customer"
  let ?db2 = "add_points_transaction now ?cid points ''manual_adjust'' reason db"
  from found_has_tier [OF assms(1)] obtain t0 where "select_tier ?cid db = Some t0" ..
  then have "select_tier ?cid ?db2 = Some t0"
    by (simp add: select_tier_after_record)
  from update_result_db [OF this, of y] obtain shown db' where
    u: "update_customer_tier y ?cid ?db2 = Inr (PyNone, shown, db')"
    and l: "PointsLedger db' = PointsLedger ?db2" and r: "Rewards db' = Rewards ?db2"
    and t: "select_tier ?cid db' = Some (new_tier_for (fst (get_customer_spending_this_year y ?cid ?db2)))"
    by blast
  have s: "fst (get_customer_spending_this_year y ?cid db') =
           fst (get_customer_spending_this_year y ?cid ?db2)"
    by (simp add: spending_value l)
  from assms have f: "find (\<lambda>c. email c = e) (Customers db) = Some customer"
    by (simp add: get_customer_by_email_def)
  have "customer_service_page now y e points reason True db =
        (Success (''Successfully adjusted points by '' @ str_int points @ '' for '' @ e @
           ''. Reason: '' @ reason) # shown, db')"
    using assms(2-4) f u
    by (simp add: customer_service_page_def get_customer_by_email_def Let_def)
  with l r t s show ?thesis
    by (simp add: add_points_transaction_def)
qed

text \<open>
  Claim C9. The Customer Service page, given a known email, a nonzero number of points
  and a reason, appends the \<^verbatim>\<open>manual_adjust\<close> row whatever the balance is, and the balance
  moves by the points of the row. The example that follows takes a balance of 0 to -100.
\<close>

theorem manual_adjust_unguarded:
  assumes "fst (get_customer_by_email e db) = Some customer"
    and "e \<noteq> []" and "points \<noteq> 0" and "reason \<noteq> []"
  shows "PointsLedger (snd (customer_service_page now y e points reason True db)) =
           PointsLedger db @
             [\<lparr>entry_customer_id = customer_id customer, points_change = points,
               transaction_type = ''manual_adjust'', entry_note = reason, timestamp = now\<rparr>]
       \<and> fst (get_customer_point_balance (customer_id customer)
                (snd (customer_service_page now y e points reason True db))) =
           fst (get_customer_point_balance (customer_id customer) db) + points"
proof -
  from customer_service_page_found [OF assms, of now y] obtain shown db' where
    "customer_service_page now y e points reason True db = (shown, db')"
    and "PointsLedger db' = PointsLedger db @
          [\<lparr>entry_customer_id = customer_id customer, points_change = points,
            transaction_type = ''manual_adjust'', entry_note = reason, timestamp = now\<rparr>]"
    by blast
  then show ?thesis
    by (simp add: balance_value)
qed

lemma alice_found: "fst (get_customer_by_email ''alice@example.com'' new_shop) = Some alice"
  by (simp add: get_customer_by_email_def new_shop_def alice_def)

theorem manual_adjust_unguarded_witness:
  "fst (get_customer_by_email ''alice@example.com'' new_shop) = Some alice
   \<and> fst (get_customer_point_balance 1 new_shop) = 0
   \<and> fst (get_customer_point_balance 1
        (snd (customer_service_page ''2024-07-01 08:00:00'' 2024 ''alice@example.com''
               (- 100) ''Goodwill reversal'' True new_shop))) = - 100"
  using manual_adjust_unguarded [OF alice_found, of "- 100" "''Goodwill reversal''"
      "''2024-07-01 08:00:00''" 2024]
  by (simp add: alice_found) (simp add: balance_value new_shop_def alice_def)

lemma redeem_reward_page_request:
  assumes "fst (get_customer_by_email e db) = Some customer"
    and "e \<noteq> []"
    and "reward_options (fst (get_available_rewards db)) label = Some rid"
    and "selected_reward_cost (fst (get_available_rewards db)) rid = Some cost"
  shows "redeem_reward_page now e label True db =
     (if fst (get_customer_point_balance (customer_id customer) db) \<ge> cost
      then ([Success (''Successfully redeemed '' @ label @ ''! '' @ str_int cost @
               '' points deducted.'')],
            add_points_transaction now (customer_id customer) (- cost) ''redeem''
              (''Redeemed: '' @ split_head '' ('' label) db)
      else ([Error ''Insufficient points to redeem this reward.''], db))"
proof -
  from assms(1) have f: "find (\<lambda>c. email c = e) (Customers db) = Some customer"
    by (simp add: get_customer_by_email_def)
  from assms(3) have o: "reward_options (sort_key points_cost (Rewards db)) label = Some rid"
    by (simp add: get_available_rewards_def)
  from assms(4) have c: "selected_reward_cost (sort_key points_cost (Rewards db)) rid = Some cost"
    by (simp add: get_available_rewards_def)
  from o have n: "sort_key points_cost (Rewards db) \<noteq> []"
    by (auto simp: reward_options_def)
  show ?thesis
    using assms(2) f o c n
    by (simp add: redeem_reward_page_def get_customer_by_email_def
        get_customer_point_balance_def get_available_rewards_def Let_def)
qed

lemma redeem_reward_page_frame:
  "Customers (snd (redeem_reward_page now e label clicked db)) = Customers db
   \<and> Rewards (snd (redeem_reward_page now e label clicked db)) = Rewards db"
  by (simp add: redeem_reward_page_def get_customer_by_email_def
      get_customer_point_balance_def get_available_rewards_def Let_def
      add_points_transaction_def split: option.splits)

text \<open>
  Claim C2. For a known customer and a selected reward of cost \<open>cost\<close>: when the balance is
  at least \<open>cost\<close> the Redeem page appends exactly one row, of type \<^verbatim>\<open>redeem\<close> and with
  \<open>points_change = - cost\<close>, and the balance drops by \<open>cost\<close>; when the balance is below
  \<open>cost\<close> the page reports \<^verbatim>\<open>Insufficient points to redeem this reward.\<close> and leaves the
  database as it was.
\<close>

theorem redemption_guard:
  assumes "fst (get_customer_by_email e db) = Some customer"
    and "e \<noteq> []"
    and "reward_options (fst (get_available_rewards db)) label = Some rid"
    and "selected_reward_cost (fst (get_available_rewards db)) rid = Some cost"
  shows "(fst (get_customer_point_balance (customer_id customer) db) \<ge> cost \<longrightarrow>
            PointsLedger (snd (redeem_reward_page now e label True db)) =
              PointsLedger db @
                [\<lparr>entry_customer_id = customer_id customer, points_change = - cost,
                  transaction_type = ''redeem'',
                  entry_note = ''Redeemed: '' @ split_head '' ('' label, timestamp = now\<rparr>]
            \<and> fst (get_customer_point_balance (customer_id customer)
                     (snd (redeem_reward_page now e label True db))) =
                fst (get_customer_point_balance (customer_id customer) db) - cost)
       \<and> (fst (get_customer_point_balance (customer_id customer) db) < cost \<longrightarrow>
            redeem_reward_page now e label True db =
              ([Error ''Insufficient points to redeem this reward.''], db))"
  by (simp add: redeem_reward_page_request [OF assms] balance_value add_points_transaction_def)

lemma tee_label: "reward_label tee = ''Tee (800 Points)''"
  by (simp add: reward_label_def tee_def str_int_def str_nat.simps digit_char_def)

lemma shop_rewards:
  "fst (get_available_rewards new_shop) = [tee]"
  "fst (get_available_rewards gold_year) = [tee]"
  by (simp_all add: get_available_rewards_def new_shop_def gold_year_def ledger_record_all
      purchases_def add_points_transaction_def)

lemmas page_defs = get_customer_by_email_def get_customer_point_balance_def
  get_available_rewards_def get_customer_spending_this_year_def update_customer_tier_def
  add_points_transaction_def select_tier_def set_tier_def sql_sum_def true_div_def
  new_tier_for_def POINTS_PER_DOLLAR_def GOLD_TIER_THRESHOLD_def reward_options_def
  selected_reward_cost_def reward_label_def str_int_def py_int_def

lemma gold_year_alice: "fst (get_customer_by_email ''alice@example.com'' gold_year) = Some alice"
  by (simp add: get_customer_by_email_def gold_year_def new_shop_def alice_def purchases_def
      add_points_transaction_def)

lemma tee_offered:
  "reward_options [tee] ''Tee (800 Points)'' = Some 7"
  "selected_reward_cost [tee] 7 = Some 800"
  by (simp_all add: reward_options_def selected_reward_cost_def tee_label) (simp_all add: tee_def)

lemma gold_year_balance: "fst (get_customer_point_balance 1 gold_year) = 5500"
  by (simp add: balance_value gold_year_def purchases_def new_shop_def
      add_points_transaction_def)

theorem redemption_guard_witness:
  "fst (get_customer_by_email ''alice@example.com'' gold_year) = Some alice
   \<and> reward_options (fst (get_available_rewards gold_year)) ''Tee (800 Points)'' = Some 7
   \<and> selected_reward_cost (fst (get_available_rewards gold_year)) 7 = Some 800
   \<and> fst (get_customer_point_balance 1 gold_year) = 5500
   \<and> fst (get_customer_point_balance 1
        (snd (redeem_reward_page ''2025-01-05 11:00:00'' ''alice@example.com''
               ''Tee (800 Points)'' True gold_year))) = 4700
   \<and> fst (get_customer_point_balance 1 new_shop) = 0
   \<and> redeem_reward_page ''2025-01-05 11:00:00'' ''alice@example.com''
        ''Tee (800 Points)'' True new_shop =
      ([Error ''Insufficient points to redeem this reward.''], new_shop)"
proof -
  have a: "customer_id alice = 1" by (simp add: alice_def)
  have b: "fst (get_customer_point_balance 1 new_shop) = 0"
    by (simp add: balance_value new_shop_def)
  show ?thesis
    using redemption_guard [OF gold_year_alice, of "''Tee (800 Points)''" 7 800
        "''2025-01-05 11:00:00''"]
      redemption_guard [OF alice_found, of "''Tee (800 Points)''" 7 800
        "''2025-01-05 11:00:00''"]
    by (simp add: gold_year_alice alice_found shop_rewards tee_offered a b gold_year_balance)
qed

text \<open>
  Claim C10. The Redeem page never writes to \<^verbatim>\<open>Customers\<close>, so the stored tier of every
  customer is the same after it as before. The Add Points page and the Customer Service
  page, once they have recorded their row, re-evaluate: the tier they leave stored for
  the customer is the one the ledger they leave gives.
\<close>

theorem redemption_keeps_tier:
  "Customers (snd (redeem_reward_page now e label clicked db)) = Customers db
   \<and> select_tier cid (snd (redeem_reward_page now e label clicked db)) = select_tier cid db
   \<and> (fst (get_customer_by_email e db) = Some customer \<and> e \<noteq> [] \<and> amount \<noteq> 0 \<and>
        order_id \<noteq> [] \<longrightarrow>
        select_tier (customer_id customer) (snd (add_points_page now y e amount order_id True db)) =
          Some (new_tier_for (fst (get_customer_spending_this_year y (customer_id customer)
                  (snd (add_points_page now y e amount order_id True db))))))
   \<and> (fst (get_customer_by_email e db) = Some customer \<and> e \<noteq> [] \<and> points \<noteq> 0 \<and>
        reason \<noteq> [] \<longrightarrow>
        select_tier (customer_id customer)
            (snd (customer_service_page now y e points reason True db)) =
          Some (new_tier_for (fst (get_customer_spending_this_year y (customer_id customer)
                  (snd (customer_service_page now y e points reason True db))))))"
proof -
  have r: "Customers (snd (redeem_reward_page now e label clicked db)) = Customers db"
    by (simp add: redeem_reward_page_frame)
  then have r': "select_tier cid (snd (redeem_reward_page now e label clicked db)) =
                 select_tier cid db"
    by (simp add: select_tier_def)
  have a: "select_tier (customer_id customer) (snd (add_points_page now y e amount order_id True db)) =
          Some (new_tier_for (fst (get_customer_spending_this_year y (customer_id customer)
                  (snd (add_points_page now y e amount order_id True db)))))"
    if "fst (get_customer_by_email e db) = Some customer" "e \<noteq> []" "amount \<noteq> 0"
       "order_id \<noteq> []"
    using add_points_page_found [OF that, of now y] by auto
  have c: "select_tier (customer_id customer)
            (snd (customer_service_page now y e points reason True db)) =
          Some (new_tier_for (fst (get_customer_spending_this_year y (customer_id customer)
                  (snd (customer_service_page now y e points reason True db)))))"
    if "fst (get_customer_by_email e db) = Some customer" "e \<noteq> []" "points \<noteq> 0"
       "reason \<noteq> []"
    using customer_service_page_found [OF that, of now y] by auto
  from r r' a c show ?thesis by blast
qed

lemma last_year_alice:
  "fst (get_customer_by_email ''alice@example.com'' last_year_gold) =
     Some (alice\<lparr>tier := ''Gold''\<rparr>)"
  by (simp add: get_customer_by_email_def last_year_gold_def alice_def)

lemma last_year_redeemed:
  "PointsLedger (snd (redeem_reward_page ''2024-02-02 10:00:00'' ''alice@example.com''
      ''Tee (800 Points)'' True last_year_gold)) =
   PointsLedger last_year_gold @
     [\<lparr>entry_customer_id = 1, points_change = - 800, transaction_type = ''redeem'',
       entry_note = ''Redeemed: Tee'', timestamp = ''2024-02-02 10:00:00''\<rparr>]"
proof -
  have "fst (get_available_rewards last_year_gold) = [tee]"
    by (simp add: get_available_rewards_def last_year_gold_def)
  then show ?thesis
    by (simp add: redeem_reward_page_request [OF last_year_alice _ _ , of _ 7 800]
        tee_offered balance_value add_points_transaction_def)
       (simp add: last_year_gold_def alice_def)
qed

lemma last_year_purchase:
  "snd (add_points_page ''2024-02-02 10:00:00'' 2024 ''alice@example.com'' 1 ''A7'' True
          last_year_gold) =
     \<lparr>Customers = [alice\<lparr>tier := ''Standard''\<rparr>],
      PointsLedger = PointsLedger last_year_gold @
        [\<lparr>entry_customer_id = 1, points_change = 10, transaction_type = ''earn'',
          entry_note = ''Order #A7'', timestamp = ''2024-02-02 10:00:00''\<rparr>],
      Rewards = [tee]\<rparr>"
  by (simp add: add_points_page_def page_defs ev last_year_gold_def alice_def Let_def)

lemma last_year_adjustment:
  "snd (customer_service_page ''2024-02-02 10:00:00'' 2024 ''alice@example.com'' 5 ''Bonus''
          True last_year_gold) =
     \<lparr>Customers = [alice\<lparr>tier := ''Standard''\<rparr>],
      PointsLedger = PointsLedger last_year_gold @
        [\<lparr>entry_customer_id = 1, points_change = 5, transaction_type = ''manual_adjust'',
          entry_note = ''Bonus'', timestamp = ''2024-02-02 10:00:00''\<rparr>],
      Rewards = [tee]\<rparr>"
  by (simp add: customer_service_page_def page_defs ev last_year_gold_def alice_def Let_def)

theorem redemption_keeps_tier_witness:
  "fst (get_customer_by_email ''alice@example.com'' last_year_gold) =
     Some (alice\<lparr>tier := ''Gold''\<rparr>)
   \<and> select_tier 1 last_year_gold = Some ''Gold''
   \<and> PointsLedger (snd (redeem_reward_page ''2024-02-02 10:00:00'' ''alice@example.com''
        ''Tee (800 Points)'' True last_year_gold)) =
      PointsLedger last_year_gold @
        [\<lparr>entry_customer_id = 1, points_change = - 800, transaction_type = ''redeem'',
          entry_note = ''Redeemed: Tee'', timestamp = ''2024-02-02 10:00:00''\<rparr>]
   \<and> select_tier 1 (snd (redeem_reward_page ''2024-02-02 10:00:00'' ''alice@example.com''
        ''Tee (800 Points)'' True last_year_gold)) = Some ''Gold''
   \<and> select_tier 1 (snd (add_points_page ''2024-02-02 10:00:00'' 2024 ''alice@example.com''
        1 ''A7'' True last_year_gold)) = Some ''Standard''
   \<and> select_tier 1 (snd (customer_service_page ''2024-02-02 10:00:00'' 2024
        ''alice@example.com'' 5 ''Bonus'' True last_year_gold)) = Some ''Standard''"
proof -
  have g: "select_tier 1 last_year_gold = Some ''Gold''"
    by (simp add: select_tier_def last_year_gold_def alice_def)
  have p: "fst (get_customer_spending_this_year 2024 1
             (snd (add_points_page ''2024-02-02 10:00:00'' 2024 ''alice@example.com'' 1 ''A7''
                True last_year_gold))) = 1"
    by (simp add: last_year_purchase spending_value) (simp add: last_year_gold_def ev)
  have q: "fst (get_customer_spending_this_year 2024 1
             (snd (customer_service_page ''2024-02-02 10:00:00'' 2024 ''alice@example.com'' 5
                ''Bonus'' True last_year_gold))) = 0"
    by (simp add: last_year_adjustment spending_value) (simp add: last_year_gold_def ev)
  have i: "customer_id (alice\<lparr>tier := ''Gold''\<rparr>) = 1"
    by (simp add: alice_def)
  show ?thesis
    using redemption_keeps_tier [where now = "''2024-02-02 10:00:00''"
        and e = "''alice@example.com''" and label = "''Tee (800 Points)''" and clicked = True
        and db = last_year_gold and cid = 1 and customer = "alice\<lparr>tier := ''Gold''\<rparr>"
        and amount = 1 and order_id = "''A7''" and y = 2024 and points = 5
        and reason = "''Bonus''"]
    by (simp add: last_year_alice last_year_redeemed g p q i new_tier_for_def
        GOLD_TIER_THRESHOLD_def)
qed

lemma add_points_page_ledger:
  "PointsLedger (snd (add_points_page now y e amount order_id clicked db)) =
     (if clicked \<and> e \<noteq> [] \<and> amount \<noteq> 0 \<and> order_id \<noteq> []
      then case fst (get_customer_by_email e db) of
             None \<Rightarrow> PointsLedger db
           | Some customer \<Rightarrow> PointsLedger db @
               [\<lparr>entry_customer_id = customer_id customer,
                 points_change = py_int (amount * real_of_int POINTS_PER_DOLLAR),
                 transaction_type = ''earn'', entry_note = ''Order #'' @ order_id,
                 timestamp = now\<rparr>]
      else PointsLedger db)"
proof (cases "clicked \<and> e \<noteq> [] \<and> amount \<noteq> 0 \<and> order_id \<noteq> []")
  case False
  then show ?thesis
    by (auto simp: add_points_page_def)
next
  case True
  show ?thesis
  proof (cases "fst (get_customer_by_email e db)")
    case None
    with True show ?thesis
      by (simp add: add_points_page_def get_customer_by_email_def)
  next
    case (Some customer)
    from True have c: clicked by simp
    from True add_points_page_found [OF Some, of amount order_id now y] Some show ?thesis
      by (auto simp: c)
  qed
qed

lemma customer_service_page_ledger:
  "PointsLedger (snd (customer_service_page now y e points reason clicked db)) =
     (if clicked \<and> e \<noteq> [] \<and> points \<noteq> 0 \<and> reason \<noteq> []
      then case fst (get_customer_by_email e db) of
             None \<Rightarrow> PointsLedger db
           | Some customer \<Rightarrow> PointsLedger db @
               [\<lparr>entry_customer_id = customer_id customer, points_change = points,
                 transaction_type = ''manual_adjust'', entry_note = reason,
                 timestamp = now\<rparr>]
      else PointsLedger db)"
proof (cases "clicked \<and> e \<noteq> [] \<and> points \<noteq> 0 \<and> reason \<noteq> []")
  case False
  then show ?thesis
    by (auto simp: customer_service_page_def)
next
  case True
  show ?thesis
  proof (cases "fst (get_customer_by_email e db)")
    case None
    with True show ?thesis
      by (simp add: customer_service_page_def get_customer_by_email_def)
  next
    case (Some customer)
    from True have c: clicked by simp
    from True customer_service_page_found [OF Some, of points reason now y] Some show ?thesis
      by (auto simp: c)
  qed
qed

lemma redeem_reward_page_types:
  "set (map transaction_type (drop (length (PointsLedger db))
     (PointsLedger (snd (redeem_reward_page now e label clicked db))))) \<subseteq> {''redeem''}"
  by (simp add: redeem_reward_page_def get_customer_by_email_def
      get_customer_point_balance_def get_available_rewards_def Let_def
      add_points_transaction_def split: option.splits)

lemma unknown_email_pages:
  assumes "fst (get_customer_by_email e db) = None"
  shows "snd (add_points_page now y e amount order_id clicked db) = db"
    and "snd (redeem_reward_page now e label clicked db) = db"
    and "snd (customer_service_page now y e points reason clicked db) = db"
  using assms
  by (simp_all add: add_points_page_def redeem_reward_page_def customer_service_page_def
      get_customer_by_email_def Let_def)

lemma zero_adjustment:
  "customer_service_page now y e 0 reason True db =
     ([Warning ''Please fill in all fields (Points cannot be zero).''], db)"
  by (simp add: customer_service_page_def)


text \<open>
  Claim C5 as stated fails. \<^verbatim>\<open>add_points_transaction\<close>, called with zero points, a type
  outside the enumeration and the id of no customer, inserts the row.
\<close>

theorem recorder_accepts_anything:
  "select_tier 99 new_shop = None
   \<and> PointsLedger (add_points_transaction ''2024-06-01 12:00:00'' 99 0 ''bogus'' ''no reason''
        new_shop) =
      [\<lparr>entry_customer_id = 99, points_change = 0, transaction_type = ''bogus'',
        entry_note = ''no reason'', timestamp = ''2024-06-01 12:00:00''\<rparr>]"
  by (simp add: add_points_transaction_def select_tier_def new_shop_def alice_def)

text \<open>
  Claim C5, amended. \<^verbatim>\<open>add_points_transaction\<close> checks nothing: whatever the customer id,
  the points, the type and the note, it appends one row carrying them. The checks are
  made by the pages before they call it. A page given an email of no customer leaves the
  database as it was; the Customer Service page given zero points warns and leaves the
  database as it was; and the rows a page adds have the type of that page, \<^verbatim>\<open>earn\<close>,
  \<^verbatim>\<open>redeem\<close> or \<^verbatim>\<open>manual_adjust\<close>.
\<close>

theorem recorder_checks_nothing:
  "PointsLedger (add_points_transaction now cid points ttype nt db) =
     PointsLedger db @
       [\<lparr>entry_customer_id = cid, points_change = points, transaction_type = ttype,
         entry_note = nt, timestamp = now\<rparr>]
   \<and> (fst (get_customer_by_email e db) = None \<longrightarrow>
        snd (add_points_page now y e amount order_id clicked db) = db
        \<and> snd (redeem_reward_page now e label clicked db) = db
        \<and> snd (customer_service_page now y e adjustment reason clicked db) = db)
   \<and> customer_service_page now y e 0 reason True db =
        ([Warning ''Please fill in all fields (Points cannot be zero).''], db)
   \<and> set (map transaction_type (drop (length (PointsLedger db))
        (PointsLedger (snd (add_points_page now y e amount order_id clicked db))))) \<subseteq> {''earn''}
   \<and> set (map transaction_type (drop (length (PointsLedger db))
        (PointsLedger (snd (redeem_reward_page now e label clicked db))))) \<subseteq> {''redeem''}
   \<and> set (map transaction_type (drop (length (PointsLedger db))
        (PointsLedger (snd (customer_service_page now y e adjustment reason clicked db)))))
        \<subseteq> {''manual_adjust''}"
proof -
  have a: "PointsLedger (add_points_transaction now cid points ttype nt db) =
     PointsLedger db @
       [\<lparr>entry_customer_id = cid, points_change = points, transaction_type = ttype,
         entry_note = nt, timestamp = now\<rparr>]"
    by (simp add: add_points_transaction_def)
  have b: "fst (get_customer_by_email e db) = None \<longrightarrow>
        snd (add_points_page now y e amount order_id clicked db) = db
        \<and> snd (redeem_reward_page now e label clicked db) = db
        \<and> snd (customer_service_page now y e adjustment reason clicked db) = db"
    by (simp add: unknown_email_pages)
  have c: "set (map transaction_type (drop (length (PointsLedger db))
        (PointsLedger (snd (add_points_page now y e amount order_id clicked db))))) \<subseteq> {''earn''}"
    by (simp add: add_points_page_ledger split: option.splits)
  have d: "set (map transaction_type (drop (length (PointsLedger db))
        (PointsLedger (snd (customer_service_page now y e adjustment reason clicked db)))))
        \<subseteq> {''manual_adjust''}"
    by (simp add: customer_service_page_ledger split: option.splits)
  from a b c d show ?thesis
    by (simp only: zero_adjustment redeem_reward_page_types simp_thms)
qed

theorem recorder_checks_nothing_witness:
  "fst (get_customer_by_email ''bob@example.com'' new_shop) = None
   \<and> snd (add_points_page ''2024-06-01 12:00:00'' 2024 ''bob@example.com'' 20 ''A3'' True
           new_shop) = new_shop
   \<and> snd (redeem_reward_page ''2024-06-01 12:00:00'' ''bob@example.com'' ''Tee (800 Points)''
           True new_shop) = new_shop
   \<and> snd (customer_service_page ''2024-06-01 12:00:00'' 2024 ''bob@example.com'' 50
           ''Welcome'' True new_shop) = new_shop"
proof -
  have n: "fst (get_customer_by_email ''bob@example.com'' new_shop) = None"
    by (simp add: get_customer_by_email_def new_shop_def alice_def)
  show ?thesis
    using recorder_checks_nothing [where e = "''bob@example.com''" and db = new_shop
        and now = "''2024-06-01 12:00:00''" and y = 2024 and amount = 20
        and order_id = "''A3''" and clicked = True and label = "''Tee (800 Points)''"
        and adjustment = 50 and reason = "''Welcome''"]
    by (simp add: n)
qed

end
